theory Spec2Isabelle
  imports Main "HOL-Library.Word"
begin

unbundle bit_operations_syntax

section \<open>The machine that \<open>custom_start.c\<close> addresses\<close>

text \<open>
  The file \<open>_posts/_artifacts/linking/custom_start.c\<close> is
  \<^verbatim>\<open>
  #include <sys/syscall.h>
  int main();
  void call_exit(int code, int exit_syscall_num) {
    asm("mov %rsi, %rax;"
        "syscall;");
  }
  void _start() { call_exit(main(), SYS_exit); }
  \<close>
  A C \<open>int\<close> is a 32-bit two's-complement value (\<open>sint\<close> reads it); the registers
  named in the inline assembly are 64 bits wide.
\<close>

type_synonym c_int = "32 word"
type_synonym reg64 = "64 word"

datatype regname = RDI | RSI | RAX

type_synonym regs = "regname \<Rightarrow> reg64"

text \<open>
  The calling convention of the source's comment: the first integer argument travels in
  \<open>%rdi\<close>, the second in \<open>%rsi\<close>. An \<open>int\<close> fills the low half of its register; the
  convention says nothing about the high half, so \<open>pass_int\<close> keeps whatever the register
  held there before.
\<close>

definition low32 :: "reg64 \<Rightarrow> c_int" where
  "low32 x = ucast x"

definition pass_int :: "reg64 \<Rightarrow> c_int \<Rightarrow> reg64" where
  "pass_int old v = push_bit 32 (drop_bit 32 old) OR ucast v"

text \<open>The two instructions of the \<open>asm\<close> statement, in AT&T order (source, destination).\<close>

datatype instr = Mov regname regname | Syscall

section \<open>The platform\<close>

text \<open>
  \<open>SYS_exit\<close> is a macro of the platform header \<open><sys/syscall.h>\<close>, which is not part of
  the repository: its value is a field of the platform. \<open>other_call\<close> is what the kernel
  does with any request that is not the exit request (it may resume the process with a
  value in \<open>%rax\<close>, an error code for instance, or kill it).
\<close>

datatype trap_result = Process_dies "8 word" | Resumes reg64

record platform =
  SYS_exit :: c_int
  other_call :: "regs \<Rightarrow> trap_result"

text \<open>
  Modelled from the spec: the operating-system kernel, which no file of the repository
  contains. At the trap it selects the system call by the number in \<open>%rax\<close> and takes the
  first argument from \<open>%rdi\<close>; servicing the exit request destroys the process, control
  never comes back, and the exit status the parent observes is the argument truncated to
  8 bits. The call number and the argument of exit are C \<open>int\<close>s, so the kernel reads
  the low halves of the two registers, as Linux on x86-64 does.
\<close>

definition kernel :: "platform \<Rightarrow> regs \<Rightarrow> trap_result" where
  "kernel p r =
     (if low32 (r RAX) = SYS_exit p then Process_dies (ucast (r RDI)) else other_call p r)"

section \<open>Observable events and execution\<close>

datatype event =
    is_Invoke_main: Invoke_main "c_int list"
  | is_Invoke_call_exit: Invoke_call_exit c_int c_int
  | is_Trap: Trap c_int c_int
  | is_Process_death: Process_death "8 word"
  | is_Return_from_call_exit: Return_from_call_exit

datatype machine = Running regs | Dead "8 word"

text \<open>
  \<open>Trap nr a\<close> records the request as the kernel reads it: call number \<open>nr\<close>, first
  argument \<open>a\<close>. After a trap that kills the process nothing of the remaining instructions
  runs.
\<close>

fun exec :: "platform \<Rightarrow> instr list \<Rightarrow> regs \<Rightarrow> event list \<times> machine" where
  "exec p [] r = ([], Running r)"
| "exec p (Mov src dst # rest) r = exec p rest (r(dst := r src))"
| "exec p (Syscall # rest) r =
     (case kernel p r of
        Process_dies s \<Rightarrow>
          ([Trap (low32 (r RAX)) (low32 (r RDI)), Process_death s], Dead s)
      | Resumes x \<Rightarrow>
          (case exec p rest (r(RAX := x)) of
             (es, m) \<Rightarrow> (Trap (low32 (r RAX)) (low32 (r RDI)) # es, m)))"

section \<open>\<open>call_exit\<close>\<close>

text \<open>
  \<open>call_exit_entry r code num\<close> is the register file on entry to
  \<open>call_exit(code, num)\<close> when the caller's registers were \<open>r\<close>; \<open>call_exit_body\<close> is
  the \<open>asm\<close> statement. Falling out of the body is the function's return.
\<close>

definition call_exit_entry :: "regs \<Rightarrow> c_int \<Rightarrow> c_int \<Rightarrow> regs" where
  "call_exit_entry r code exit_syscall_num =
     r(RDI := pass_int (r RDI) code, RSI := pass_int (r RSI) exit_syscall_num)"

definition call_exit_body :: "instr list" where
  "call_exit_body = [Mov RSI RAX, Syscall]"

definition call_exit :: "platform \<Rightarrow> regs \<Rightarrow> c_int \<Rightarrow> c_int \<Rightarrow> event list \<times> machine" where
  "call_exit p r code exit_syscall_num =
     exec p call_exit_body (call_exit_entry r code exit_syscall_num)"

section \<open>\<open>_start\<close>\<close>

text \<open>
  \<open>main\<close> is only declared in the file. It either hands back an \<open>int\<close>, leaving the
  registers in some state, or never hands control back.
\<close>

datatype main_behaviour = Returns c_int regs | Never_returns

datatype outcome = Exited "8 word" | Stuck_in_main | Ran_past_start

text \<open>
  \<open>void _start() { call_exit(main(), SYS_exit); }\<close>: \<open>main\<close> is called with no
  arguments, then \<open>call_exit\<close> with its result and the header's constant. Should
  \<open>call_exit\<close> return, \<open>_start\<close> has no caller to return to and runs past its end.
\<close>

definition start :: "platform \<Rightarrow> main_behaviour \<Rightarrow> event list \<times> outcome" where
  "start p m =
     (case m of
        Never_returns \<Rightarrow> ([Invoke_main []], Stuck_in_main)
      | Returns v r \<Rightarrow>
          (case call_exit p r v (SYS_exit p) of
             (es, Dead s) \<Rightarrow>
               (Invoke_main [] # Invoke_call_exit v (SYS_exit p) # es, Exited s)
           | (es, Running r') \<Rightarrow>
               (Invoke_main [] # Invoke_call_exit v (SYS_exit p) # es @ [Return_from_call_exit],
                Ran_past_start)))"

definition observed_status :: "outcome \<Rightarrow> int option" where
  "observed_status out = (case out of Exited s \<Rightarrow> Some (uint s) | _ \<Rightarrow> None)"

text \<open>
  The register file at the moment the \<open>syscall\<close> instruction of \<open>call_exit\<close> executes:
  the entry registers after \<open>mov %rsi, %rax\<close>.
\<close>

definition regs_at_trap :: "regs \<Rightarrow> c_int \<Rightarrow> c_int \<Rightarrow> regs" where
  "regs_at_trap r code exit_syscall_num =
     (call_exit_entry r code exit_syscall_num)
       (RAX := call_exit_entry r code exit_syscall_num RSI)"

text \<open>
  A concrete platform for evaluation: Linux on x86-64, where \<open>SYS_exit\<close> is 60 and an
  unknown call number makes the kernel resume the process with \<open>-ENOSYS\<close> (\<open>-38\<close>).
\<close>

definition linux_amd64 :: platform where
  "linux_amd64 = \<lparr>SYS_exit = 60, other_call = (\<lambda>r. Resumes (- 38))\<rparr>"

definition zero_regs :: regs where
  "zero_regs = (\<lambda>x. 0)"

section \<open>Basic facts\<close>

lemma low32_pass_int: "low32 (pass_int old v) = v"
  unfolding low32_def pass_int_def
  by (rule bit_word_eqI) (auto simp add: bit_simps)

lemma low8_pass_int: "(ucast (pass_int old v) :: 8 word) = ucast v"
  unfolding pass_int_def
  by (rule bit_word_eqI) (auto simp add: bit_simps)

lemma uint_low8: "uint (ucast (v :: c_int) :: 8 word) = sint v mod 2 ^ 8"
proof -
  have "uint (ucast v :: 8 word) = take_bit 8 (uint v)"
    by (simp add: unsigned_ucast_eq)
  also have "\<dots> = take_bit 8 (signed_take_bit 31 (uint v))"
    by (simp add: take_bit_signed_take_bit)
  also have "\<dots> = take_bit 8 (sint v)"
    by (simp add: sint_uint)
  finally show ?thesis
    by (simp add: take_bit_eq_mod)
qed

lemma regs_at_trap_RAX: "low32 (regs_at_trap r code num RAX) = num"
  by (simp add: regs_at_trap_def call_exit_entry_def low32_pass_int)

lemma regs_at_trap_RDI: "low32 (regs_at_trap r code num RDI) = code"
  by (simp add: regs_at_trap_def call_exit_entry_def low32_pass_int)

lemma regs_at_trap_status: "(ucast (regs_at_trap r code num RDI) :: 8 word) = ucast code"
  by (simp add: regs_at_trap_def call_exit_entry_def low8_pass_int)

text \<open>What one call of \<open>call_exit\<close> does, whatever the kernel answers.\<close>

lemma call_exit_run:
  "call_exit p r code num =
     (case kernel p (regs_at_trap r code num) of
        Process_dies s \<Rightarrow> ([Trap num code, Process_death s], Dead s)
      | Resumes x \<Rightarrow> ([Trap num code], Running ((regs_at_trap r code num)(RAX := x))))"
proof -
  have "call_exit p r code num = exec p [Syscall] (regs_at_trap r code num)"
    by (simp add: call_exit_def call_exit_body_def regs_at_trap_def)
  then show ?thesis
    by (simp add: regs_at_trap_RAX regs_at_trap_RDI split: trap_result.split)
qed

lemma kernel_exit_request:
  "kernel p (regs_at_trap r code (SYS_exit p)) = Process_dies (ucast code)"
  by (simp add: kernel_def regs_at_trap_RAX regs_at_trap_status)

lemma start_returns:
  "start p (Returns v r) =
     ([Invoke_main [], Invoke_call_exit v (SYS_exit p), Trap (SYS_exit p) v,
       Process_death (ucast v)], Exited (ucast v))"
  by (simp add: start_def call_exit_run kernel_exit_request)

lemma start_never_returns: "start p Never_returns = ([Invoke_main []], Stuck_in_main)"
  by (simp add: start_def)

text \<open>
  The model does have a path on which \<open>call_exit\<close> returns: with a call number that is
  not the exit request (39 here), the kernel resumes the process.
\<close>

lemma call_exit_can_return:
  "call_exit linux_amd64 zero_regs 0 39 =
     ([Trap 39 0], Running ((regs_at_trap zero_regs 0 39)(RAX := - 38)))"
  by (simp add: call_exit_run kernel_def regs_at_trap_RAX linux_amd64_def)

section \<open>The exit status\<close>

text \<open>
  Claim C1. Whatever value \<open>v\<close> the program logic returns, the exit status observed after
  \<open>_start\<close> has run is \<open>v\<close> modulo \<open>2 ^ 8\<close>; a value that is itself a valid exit status
  (from 0 to 255) is observed unchanged; when \<open>main\<close> returns 42 the status is 42.
\<close>

theorem start_exit_status:
  "observed_status (snd (start p (Returns v r))) = Some (sint v mod 2 ^ 8)
   \<and> (0 \<le> sint v \<and> sint v < 2 ^ 8
        \<longrightarrow> observed_status (snd (start p (Returns v r))) = Some (sint v))
   \<and> observed_status (snd (start p (Returns 42 r))) = Some 42"
  by (simp add: start_returns observed_status_def uint_low8)

theorem start_exit_status_witness:
  "0 \<le> sint (42 :: c_int) \<and> sint (42 :: c_int) < 2 ^ 8
   \<and> observed_status (snd (start linux_amd64 (Returns 42 zero_regs))) = Some (sint (42 :: c_int))"
  using start_exit_status [of linux_amd64 42 zero_regs] by simp

text \<open>
  Claim C6. When the program logic returns a negative value, the observed exit status is
  that value wrapped into 8 bits, so it differs from the value itself; for \<open>-1\<close> it
  is 255.
\<close>

theorem start_negative_status:
  "(sint v < 0 \<longrightarrow>
      observed_status (snd (start p (Returns v r))) = Some (sint v mod 2 ^ 8)
      \<and> observed_status (snd (start p (Returns v r))) \<noteq> Some (sint v))
   \<and> observed_status (snd (start p (Returns (- 1) r))) = Some 255
   \<and> (- 1 :: int) mod 2 ^ 8 = 255"
proof -
  have "0 \<le> sint v mod 2 ^ 8"
    by simp
  then have "sint v < 0 \<longrightarrow> sint v mod 2 ^ 8 \<noteq> sint v"
    by linarith
  then show ?thesis
    by (simp add: start_returns observed_status_def uint_low8)
qed

theorem start_negative_status_witness:
  "sint (- 1 :: c_int) < 0
   \<and> observed_status (snd (start linux_amd64 (Returns (- 1) zero_regs))) = Some 255
   \<and> observed_status (snd (start linux_amd64 (Returns (- 1) zero_regs))) \<noteq> Some (- 1)"
  using start_negative_status [of "- 1" linux_amd64 zero_regs] by simp

section \<open>The termination invoker\<close>

text \<open>
  Claim C2. For every pair of arguments of \<open>call_exit\<close>: on entry the exit code is already
  in \<open>%rdi\<close>, the register of the kernel's first argument, and the call number is in
  \<open>%rsi\<close>; the body only copies \<open>%rsi\<close> into \<open>%rax\<close> and then traps (every other register
  is as on entry); the kernel is asked for call number \<open>exit_syscall_num\<close> with first
  argument \<open>code\<close>, and for nothing else.
\<close>

theorem call_exit_copies_number_and_traps:
  "low32 (call_exit_entry r code num RDI) = code
   \<and> low32 (call_exit_entry r code num RSI) = num
   \<and> call_exit p r code num =
       exec p [Syscall] ((call_exit_entry r code num)(RAX := call_exit_entry r code num RSI))
   \<and> low32 (regs_at_trap r code num RAX) = num
   \<and> low32 (regs_at_trap r code num RDI) = code
   \<and> filter is_Trap (fst (call_exit p r code num)) = [Trap num code]"
proof -
  have "filter is_Trap (fst (call_exit p r code num)) = [Trap num code]"
    by (simp add: call_exit_run split: trap_result.split)
  then show ?thesis
    by (simp add: call_exit_def call_exit_body_def call_exit_entry_def low32_pass_int
        regs_at_trap_RAX regs_at_trap_RDI)
qed

text \<open>
  Claim C8. Neither function has an error path. Whatever the kernel answers to the trap,
  an error code in \<open>%rax\<close> included, \<open>call_exit\<close> issues that one request, does not look
  at the answer, does not ask again and produces no other event; a run of \<open>_start\<close> ends
  in the exit of the process with the value of \<open>main\<close>, or stays in \<open>main\<close>.
\<close>

theorem call_exit_no_error_path:
  "(case kernel p (regs_at_trap r code num) of
      Process_dies s \<Rightarrow> call_exit p r code num = ([Trap num code, Process_death s], Dead s)
    | Resumes x \<Rightarrow>
        call_exit p r code num = ([Trap num code], Running ((regs_at_trap r code num)(RAX := x))))
   \<and> length (filter is_Trap (fst (call_exit p r code num))) = 1
   \<and> (start p m = ([Invoke_main []], Stuck_in_main)
        \<or> (\<exists>v. start p m =
              ([Invoke_main [], Invoke_call_exit v (SYS_exit p), Trap (SYS_exit p) v,
                Process_death (ucast v)], Exited (ucast v))))"
proof -
  have "start p m = ([Invoke_main []], Stuck_in_main)
        \<or> (\<exists>v. start p m =
              ([Invoke_main [], Invoke_call_exit v (SYS_exit p), Trap (SYS_exit p) v,
                Process_death (ucast v)], Exited (ucast v)))"
    by (cases m) (simp_all add: start_returns start_never_returns)
  then show ?thesis
    by (simp add: call_exit_run split: trap_result.split)
qed

section \<open>The entry trampoline\<close>

text \<open>
  Claim C3. \<open>_start\<close> takes no arguments and forwards none: in every run \<open>main\<close> is
  invoked exactly once, with an empty argument list; when \<open>main\<close> returns \<open>v\<close>, the next
  thing \<open>_start\<close> does is the one call \<open>call_exit(v, SYS_exit)\<close>. That call really runs
  on these two values: everything after the two invocations is what \<open>call_exit\<close> does on
  \<open>(v, SYS_exit)\<close>, namely the one trap with call number \<open>SYS_exit\<close> and first argument
  \<open>v\<close> and the death of the process with the status of \<open>v\<close>.
\<close>

theorem start_invokes_main_then_call_exit:
  "filter is_Invoke_main (fst (start p m)) = [Invoke_main []]
   \<and> take 2 (fst (start p (Returns v r))) = [Invoke_main [], Invoke_call_exit v (SYS_exit p)]
   \<and> filter is_Invoke_call_exit (fst (start p (Returns v r)))
       = [Invoke_call_exit v (SYS_exit p)]
   \<and> fst (start p (Returns v r))
       = Invoke_main [] # Invoke_call_exit v (SYS_exit p) # fst (call_exit p r v (SYS_exit p))
   \<and> call_exit p r v (SYS_exit p)
       = ([Trap (SYS_exit p) v, Process_death (ucast v)], Dead (ucast v))
   \<and> filter is_Trap (fst (start p (Returns v r))) = [Trap (SYS_exit p) v]
   \<and> snd (start p (Returns v r)) = Exited (ucast v)"
proof -
  have once: "filter is_Invoke_main (fst (start p m)) = [Invoke_main []]"
    by (cases m) (simp_all add: start_returns start_never_returns)
  have run: "call_exit p r v (SYS_exit p)
               = ([Trap (SYS_exit p) v, Process_death (ucast v)], Dead (ucast v))"
    by (simp add: call_exit_run kernel_exit_request)
  from once run show ?thesis
    by (simp add: start_returns numeral_2_eq_2)
qed

text \<open>
  Claim C9. The selector that \<open>_start\<close> hands to \<open>call_exit\<close>, and so the call number of
  the trap, is the platform's \<open>SYS_exit\<close>, whatever its value: on a platform whose header
  gives the constant the value \<open>n\<close>, the number requested is \<open>n\<close>.
\<close>

theorem start_selector_is_SYS_exit:
  "filter is_Invoke_call_exit (fst (start p (Returns v r)))
     = [Invoke_call_exit v (SYS_exit p)]
   \<and> filter is_Trap (fst (start p (Returns v r))) = [Trap (SYS_exit p) v]
   \<and> filter is_Trap (fst (start (p\<lparr>SYS_exit := n\<rparr>) (Returns v r))) = [Trap n v]"
  by (simp add: start_returns)

section \<open>Termination\<close>

text \<open>
  Claim C4. The termination call never returns: no run of \<open>_start\<close> contains a return
  from \<open>call_exit\<close> or runs past the end of \<open>_start\<close>, and from the trap on the only
  thing that happens is the death of the process.
\<close>

theorem exit_trap_never_returns:
  "snd (start p m) \<noteq> Ran_past_start
   \<and> filter is_Return_from_call_exit (fst (start p m)) = []
   \<and> dropWhile (\<lambda>e. \<not> is_Trap e) (fst (start p (Returns v r)))
       = [Trap (SYS_exit p) v, Process_death (ucast v)]
   \<and> snd (start p (Returns v r)) = Exited (ucast v)"
proof -
  have "snd (start p m) \<noteq> Ran_past_start
        \<and> filter is_Return_from_call_exit (fst (start p m)) = []"
    by (cases m) (simp_all add: start_returns start_never_returns)
  then show ?thesis
    by (simp add: start_returns)
qed

text \<open>
  Claim C5. In a run in which \<open>main\<close> returns, the events are, in this order and with
  nothing in between: the invocation of \<open>main\<close>, the call of \<open>call_exit\<close>, the trap, the
  death of the process. In a run in which it does not, the invocation of \<open>main\<close> is the
  only event.
\<close>

theorem start_event_order:
  "fst (start p (Returns v r))
     = [Invoke_main [], Invoke_call_exit v (SYS_exit p), Trap (SYS_exit p) v,
        Process_death (ucast v)]
   \<and> fst (start p Never_returns) = [Invoke_main []]"
  by (simp add: start_returns start_never_returns)

text \<open>
  Claim C7, as stated: every run of \<open>_start\<close> issues the exit system call exactly once.
  It fails in a run in which \<open>main\<close> never returns: \<open>call_exit\<close> is not reached and
  \<open>_start\<close> issues no request at all.
\<close>

theorem start_exit_count_counterexample:
  "length (filter is_Trap (fst (start linux_amd64 Never_returns))) \<noteq> 1"
  by (simp add: start_never_returns)

text \<open>
  Claim C7, amended. In every run of \<open>_start\<close> in which \<open>main\<close> returns, exactly one
  system call is issued, the exit request with the value of \<open>main\<close>, and the process dies
  exactly once; in a run in which \<open>main\<close> never returns \<open>_start\<close> issues none; no run
  issues more than one.
\<close>

theorem start_exit_count:
  "filter is_Trap (fst (start p (Returns v r))) = [Trap (SYS_exit p) v]
   \<and> filter is_Process_death (fst (start p (Returns v r))) = [Process_death (ucast v)]
   \<and> filter is_Trap (fst (start p Never_returns)) = []
   \<and> length (filter is_Trap (fst (start p m))) \<le> 1"
proof -
  have "length (filter is_Trap (fst (start p m))) \<le> 1"
    by (cases m) (simp_all add: start_returns start_never_returns)
  then show ?thesis
    by (simp add: start_returns start_never_returns)
qed

section \<open>Determinism\<close>

text \<open>
  Claim C10. Two runs in which \<open>main\<close> returns the same value issue the same system call
  with the same number and argument and end with the same exit status, whatever the
  registers held when \<open>main\<close> returned; the exit status is the same even on another
  platform, and the whole run is the same on every platform with the same \<open>SYS_exit\<close>.
\<close>

theorem start_deterministic:
  "start p (Returns v r1) = start p (Returns v r2)
   \<and> snd (start p (Returns v r1)) = snd (start q (Returns v r2))
   \<and> (SYS_exit p = SYS_exit q \<longrightarrow> start p (Returns v r1) = start q (Returns v r2))"
  by (simp add: start_returns)

theorem start_deterministic_witness:
  "SYS_exit linux_amd64 = SYS_exit (linux_amd64\<lparr>other_call := (\<lambda>r. Process_dies 1)\<rparr>)
   \<and> start linux_amd64 (Returns 7 zero_regs)
       = start (linux_amd64\<lparr>other_call := (\<lambda>r. Process_dies 1)\<rparr>) (Returns 7 (\<lambda>x. - 1))"
proof -
  have same: "SYS_exit linux_amd64 = SYS_exit (linux_amd64\<lparr>other_call := (\<lambda>r. Process_dies 1)\<rparr>)"
    by simp
  from same start_deterministic
    [of linux_amd64 7 zero_regs "\<lambda>x. - 1" "linux_amd64\<lparr>other_call := (\<lambda>r. Process_dies 1)\<rparr>"]
  show ?thesis
    by blast
qed

end
